theory Spec2Isabelle
  imports Main "HOL-Library.Sublist"
begin

chapter \<open>The model\<close>

section \<open>Structured values\<close>

text \<open>
  The values that the forms parse and that a context holds are structured values
  (\<^verbatim>\<open>Record<string, any>\<close> in \<^verbatim>\<open>apiService.ts\<close>). An object keeps its
  members in order, as an association list. A number is a floating-point value of the
  runtime: the type of numbers is left abstract, and no function below computes on a
  number, compares two numbers or writes one out.
\<close>

typedecl number

datatype json =
    JNull
  | JBool bool
  | JNum number
  | JStr string
  | JArr "json list"
  | JObj "(string \<times> json) list"

text \<open>JavaScript truthiness of a string: only the empty string is falsy.\<close>

definition truthy :: "string \<Rightarrow> bool" where
  "truthy s = (s \<noteq> [])"

text \<open>
  \<^verbatim>\<open>a || b\<close> on an optional string: \<^verbatim>\<open>undefined\<close> and the empty string are
  both falsy, so both select \<^verbatim>\<open>b\<close>.
\<close>

definition or_else :: "string option \<Rightarrow> string \<Rightarrow> string" where
  "or_else a b = (case a of None \<Rightarrow> b | Some s \<Rightarrow> if truthy s then s else b)"

text \<open>\<^verbatim>\<open>index.toString()\<close>: the decimal numeral of an array index.\<close>

definition digit :: "nat \<Rightarrow> char" where
  "digit d = char_of (48 + d)"

function toString :: "nat \<Rightarrow> string" where
  "toString n = (if n < 10 then [digit n] else toString (n div 10) @ [digit (n mod 10)])"
  by pat_completeness auto
termination
  by (relation "measure (\<lambda>n. n)") auto

declare toString.simps [simp del]


section \<open>StateDiagram.tsx\<close>

text \<open>
  The component's own \<^verbatim>\<open>State\<close> and \<^verbatim>\<open>Transition\<close> interfaces: the ids and
  the two flags of a state are optional, the endpoints of a transition are strings.
\<close>

record State =
  sd_id :: "string option"
  sd_name :: string
  sd_is_initial :: "bool option"
  sd_is_final :: "bool option"

record Transition =
  sdt_id :: "string option"
  sdt_name :: string
  sdt_from_state_id :: string
  sdt_to_state_id :: string

text \<open>
  A node and an edge of the diagram. The position of a node (a point on a circle, computed
  in floating point) and the constant styling of an edge are left out; the border colour
  stands for the node's \<^verbatim>\<open>style\<close>.
\<close>

record Node =
  node_id :: string
  node_label :: string
  node_borderColor :: "string option"
  node_className :: string

record Edge =
  edge_id :: string
  edge_source :: string
  edge_target :: string
  edge_label :: string

text \<open>An optional flag used as a condition: \<^verbatim>\<open>undefined\<close> is falsy.\<close>

definition flag :: "bool option \<Rightarrow> bool" where
  "flag b = (case b of None \<Rightarrow> False | Some v \<Rightarrow> v)"

definition createNode :: "nat \<times> State \<Rightarrow> Node" where
  "createNode p =
     (case p of (index, state) \<Rightarrow>
        \<lparr> node_id = or_else (sd_id state) (toString index),
          node_label = sd_name state,
          node_borderColor =
            (if flag (sd_is_final state) then Some ''#F44336''
             else if flag (sd_is_initial state) then Some ''#4CAF50''
             else None),
          node_className =
            (if flag (sd_is_final state)
             then (if flag (sd_is_initial state) then ''initial-final-state'' else ''final-state'')
             else if flag (sd_is_initial state) then ''initial-state''
             else '''') \<rparr>)"

definition createNodes :: "State list \<Rightarrow> Node list" where
  "createNodes states = map createNode (enumerate 0 states)"

text \<open>
  The callback of \<^verbatim>\<open>transitions.map\<close>: \<^verbatim>\<open>null\<close> for a transition that is
  skipped, an edge otherwise. The test is the source's, in the source's order.
\<close>

definition createEdge :: "nat \<times> Transition \<Rightarrow> Edge option" where
  "createEdge p =
     (case p of (index, transition) \<Rightarrow>
        (let fromId = sdt_from_state_id transition;
             toId = sdt_to_state_id transition
         in if fromId = toId \<or> \<not> truthy fromId \<or> \<not> truthy toId then None
            else Some \<lparr> edge_id = or_else (sdt_id transition) (''e'' @ toString index),
                        edge_source = fromId,
                        edge_target = toId,
                        edge_label = sdt_name transition \<rparr>))"

text \<open>\<^verbatim>\<open>transitions.map(...).filter(Boolean)\<close>.\<close>

definition createEdges :: "Transition list \<Rightarrow> Edge list" where
  "createEdges transitions =
     map the (filter (\<lambda>e. e \<noteq> None) (map createEdge (enumerate 0 transitions)))"

text \<open>The transitions that the diagram draws.\<close>

definition drawn :: "Transition \<Rightarrow> bool" where
  "drawn t = (sdt_from_state_id t \<noteq> [] \<and> sdt_to_state_id t \<noteq> []
              \<and> sdt_from_state_id t \<noteq> sdt_to_state_id t)"


section \<open>apiService.ts\<close>

text \<open>
  The interfaces of the API client. Field names carry a prefix per interface, since two
  records of one theory cannot share a field name: \<open>st_\<close> for \<^verbatim>\<open>WorkflowState\<close>,
  \<open>tr_\<close> for \<^verbatim>\<open>WorkflowTransition\<close>, \<open>wd_\<close> for \<^verbatim>\<open>WorkflowDefinition\<close>,
  \<open>wi_\<close> for \<^verbatim>\<open>WorkflowInstance\<close> and \<open>he_\<close> for \<^verbatim>\<open>WorkflowHistoryEntry\<close>.
\<close>

record WorkflowState =
  st_id :: string
  st_name :: string
  st_description :: string
  st_is_initial :: bool
  st_is_final :: bool

record WorkflowTransition =
  tr_id :: string
  tr_name :: string
  tr_description :: string
  tr_from_state_id :: string
  tr_to_state_id :: string
  tr_conditions :: "string list option"

record WorkflowDefinition =
  wd_id :: string
  wd_name :: string
  wd_description :: string
  wd_version :: string
  wd_states :: "WorkflowState list"
  wd_transitions :: "WorkflowTransition list"
  wd_created_at :: string
  wd_updated_at :: string


record WorkflowInstance =
  wi_id :: string
  wi_workflow_definition_id :: string
  wi_current_state_id :: string
  wi_data :: "(string \<times> json) list"
  wi_status :: string
  wi_created_at :: string
  wi_updated_at :: string

record WorkflowHistoryEntry =
  he_id :: string
  he_workflow_instance_id :: string
  he_from_state_id :: "string option"
  he_to_state_id :: string
  he_transition_id :: "string option"
  he_timestamp :: string
  he_data :: "(string \<times> json) list"

record CreateWorkflowInstanceRequest =
  creq_workflow_definition_id :: string
  creq_data :: json

record TransitionWorkflowInstanceRequest =
  treq_transition_id :: string
  treq_data :: json


section \<open>workflow-instances/page.tsx\<close>



section \<open>workflow-instances/[id]/page.tsx\<close>


text \<open>
  \<^verbatim>\<open>getAvailableTransitions\<close> reads the definition and the instance of the page,
  either of which may still be undefined.
\<close>

definition getAvailableTransitions ::
    "WorkflowDefinition option \<Rightarrow> WorkflowInstance option \<Rightarrow> WorkflowTransition list" where
  "getAvailableTransitions definition instance =
     (case (definition, instance) of
        (Some d, Some i) \<Rightarrow>
          filter (\<lambda>transition. tr_from_state_id transition = wi_current_state_id i)
                 (wd_transitions d)
      | _ \<Rightarrow> [])"


text \<open>The values of the menu items of the transition dialog's select.\<close>

definition transitionOptions ::
    "WorkflowDefinition option \<Rightarrow> WorkflowInstance option \<Rightarrow> string list" where
  "transitionOptions definition instance =
     map tr_id (getAvailableTransitions definition instance)"

text \<open>
  The cells of a history row: a null (or empty) \<^verbatim>\<open>from_state_id\<close> is shown as
  \<^verbatim>\<open>Initial\<close>, a null (or empty) \<^verbatim>\<open>transition_id\<close> as \<^verbatim>\<open>Initialization\<close>.
\<close>

definition getStateName :: "WorkflowDefinition option \<Rightarrow> string \<Rightarrow> string" where
  "getStateName definition stateId =
     (case definition of
        None \<Rightarrow> ''Unknown State''
      | Some d \<Rightarrow>
          or_else (map_option st_name (find (\<lambda>s. st_id s = stateId) (wd_states d)))
                  ''Unknown State'')"

definition getTransitionName :: "WorkflowDefinition option \<Rightarrow> string \<Rightarrow> string" where
  "getTransitionName definition transitionId =
     (case definition of
        None \<Rightarrow> ''System Transition''
      | Some d \<Rightarrow>
          or_else (map_option tr_name (find (\<lambda>t. tr_id t = transitionId) (wd_transitions d)))
                  ''System Transition'')"

definition historyFromCell :: "WorkflowDefinition option \<Rightarrow> WorkflowHistoryEntry \<Rightarrow> string" where
  "historyFromCell definition entry =
     (case he_from_state_id entry of
        None \<Rightarrow> ''Initial''
      | Some s \<Rightarrow> if truthy s then getStateName definition s else ''Initial'')"

definition historyTransitionCell :: "WorkflowDefinition option \<Rightarrow> WorkflowHistoryEntry \<Rightarrow> string" where
  "historyTransitionCell definition entry =
     (case he_transition_id entry of
        None \<Rightarrow> ''Initialization''
      | Some t \<Rightarrow> if truthy t then getTransitionName definition t else ''Initialization'')"


section \<open>The JSON text fields of the two instance forms\<close>

text \<open>
  \<^verbatim>\<open>JSON.parse\<close> belongs to the JavaScript runtime, so it is a parameter \<open>parse\<close>
  of everything that calls it: \<open>None\<close> is the thrown \<^verbatim>\<open>SyntaxError\<close>. The value of
  the text field is optional, as the test function of the schema receives it.
\<close>

type_synonym json_parse = "string \<Rightarrow> json option"

text \<open>
  The test \<^verbatim>\<open>is-valid-json\<close>, written out identically in \<^verbatim>\<open>transitionSchema\<close>
  and in the \<^verbatim>\<open>schema\<close> of the creation form.
\<close>

definition is_valid_json :: "json_parse \<Rightarrow> string option \<Rightarrow> bool" where
  "is_valid_json parse v =
     (case v of
        None \<Rightarrow> True
      | Some text \<Rightarrow>
          if \<not> truthy text then True
          else (case parse text of Some _ \<Rightarrow> True | None \<Rightarrow> False))"

text \<open>\<^verbatim>\<open>yup.string().required(message)\<close> on a string: the empty string is missing.\<close>

definition required :: "string \<Rightarrow> string \<Rightarrow> string \<Rightarrow> (string \<times> string) list" where
  "required path message v = (if v = [] then [(path, message)] else [])"

text \<open>
  What submitting a form does: the resolver rejects it with the (path, message) pairs of
  the failed tests and the handler never runs; or the handler runs and either calls the
  mutation with a request, or throws before it does.
\<close>

datatype 'r submission = Rejected "(string \<times> string) list" | Request 'r | Threw

record TransitionFormData =
  tf_transition_id :: string
  tf_data :: "string option"

definition transitionSchema :: "json_parse \<Rightarrow> TransitionFormData \<Rightarrow> (string \<times> string) list" where
  "transitionSchema parse form =
     required ''transition_id'' ''Transition is required'' (tf_transition_id form)
     @ (if is_valid_json parse (tf_data form) then []
        else [(''data'', ''Invalid JSON format'')])"

text \<open>\<^verbatim>\<open>data.data ? JSON.parse(data.data) : {}\<close>.\<close>

definition parsedData :: "json_parse \<Rightarrow> string option \<Rightarrow> json option" where
  "parsedData parse v =
     (case v of
        None \<Rightarrow> Some (JObj [])
      | Some text \<Rightarrow> if truthy text then parse text else Some (JObj []))"

definition handleTransitionSubmit ::
    "json_parse \<Rightarrow> TransitionFormData \<Rightarrow> TransitionWorkflowInstanceRequest submission" where
  "handleTransitionSubmit parse form =
     (case parsedData parse (tf_data form) of
        None \<Rightarrow> Threw
      | Some d \<Rightarrow> Request \<lparr> treq_transition_id = tf_transition_id form, treq_data = d \<rparr>)"

definition submitTransitionForm ::
    "json_parse \<Rightarrow> TransitionFormData \<Rightarrow> TransitionWorkflowInstanceRequest submission" where
  "submitTransitionForm parse form =
     (let errors = transitionSchema parse form
      in if errors = [] then handleTransitionSubmit parse form else Rejected errors)"


section \<open>workflow-instances/new/page.tsx\<close>

record FormData =
  fd_workflow_definition_id :: string
  fd_data :: "string option"

definition schema :: "json_parse \<Rightarrow> FormData \<Rightarrow> (string \<times> string) list" where
  "schema parse form =
     required ''workflow_definition_id'' ''Workflow definition is required''
       (fd_workflow_definition_id form)
     @ (if is_valid_json parse (fd_data form) then []
        else [(''data'', ''Invalid JSON format'')])"

definition handleFormSubmit ::
    "json_parse \<Rightarrow> FormData \<Rightarrow> CreateWorkflowInstanceRequest submission" where
  "handleFormSubmit parse form =
     (case parsedData parse (fd_data form) of
        None \<Rightarrow> Threw
      | Some d \<Rightarrow>
          Request \<lparr> creq_workflow_definition_id = fd_workflow_definition_id form,
                    creq_data = d \<rparr>)"

definition submitInstanceForm ::
    "json_parse \<Rightarrow> FormData \<Rightarrow> CreateWorkflowInstanceRequest submission" where
  "submitInstanceForm parse form =
     (let errors = schema parse form
      in if errors = [] then handleFormSubmit parse form else Rejected errors)"


text \<open>
  A stand-in for \<^verbatim>\<open>JSON.parse\<close> on three texts, to run the forms on: it reads
  \<^verbatim>\<open>{}\<close> and \<^verbatim>\<open>true\<close> and throws on every other text.
\<close>

definition sample_parse :: json_parse where
  "sample_parse text =
     (if text = ''{}'' then Some (JObj [])
      else if text = ''true'' then Some (JBool True)
      else None)"


section \<open>The definition detail page: the type of a state\<close>

text \<open>
  The chip of the column \<^verbatim>\<open>Type\<close> of the states table, chosen from the two flags of
  a \<^verbatim>\<open>WorkflowState\<close>.
\<close>

definition stateTypeChip :: "WorkflowState \<Rightarrow> string" where
  "stateTypeChip state =
     (if st_is_initial state \<and> st_is_final state then ''Initial & Final''
      else if st_is_initial state then ''Initial''
      else if st_is_final state then ''Final''
      else ''Normal'')"


section \<open>WorkflowDefinitionForm\<close>

text \<open>
  The data of the definition form (\<^verbatim>\<open>WorkflowDefinitionFormData\<close>): the ids are
  optional, the flags are booleans. Prefixes: \<open>sf_\<close> for a state of the form, \<open>tfm_\<close>
  for a transition of the form, \<open>df_\<close> for the form itself.
\<close>

record StateFormData =
  sf_id :: "string option"
  sf_name :: string
  sf_description :: string
  sf_is_initial :: bool
  sf_is_final :: bool

record TransitionFormRow =
  tfm_id :: "string option"
  tfm_name :: string
  tfm_description :: string
  tfm_from_state_id :: string
  tfm_to_state_id :: string

record WorkflowDefinitionFormData =
  df_name :: string
  df_description :: string
  df_version :: string
  df_states :: "StateFormData list"
  df_transitions :: "TransitionFormRow list"

text \<open>
  The form validation schema: every test of the yup object, with the path of the field
  it fails on. Nothing else is tested.
\<close>

definition stateSchema :: "nat \<times> StateFormData \<Rightarrow> (string \<times> string) list" where
  "stateSchema p =
     (case p of (index, state) \<Rightarrow>
        required (''states['' @ toString index @ ''].name'') ''State name is required''
          (sf_name state))"

definition transitionRowSchema :: "nat \<times> TransitionFormRow \<Rightarrow> (string \<times> string) list" where
  "transitionRowSchema p =
     (case p of (index, transition) \<Rightarrow>
        required (''transitions['' @ toString index @ ''].name'') ''Transition name is required''
          (tfm_name transition)
        @ required (''transitions['' @ toString index @ ''].from_state_id'')
            ''From state is required'' (tfm_from_state_id transition)
        @ required (''transitions['' @ toString index @ ''].to_state_id'')
            ''To state is required'' (tfm_to_state_id transition))"

definition definitionSchema :: "WorkflowDefinitionFormData \<Rightarrow> (string \<times> string) list" where
  "definitionSchema form =
     required ''name'' ''Name is required'' (df_name form)
     @ required ''version'' ''Version is required'' (df_version form)
     @ concat (map stateSchema (enumerate 0 (df_states form)))
     @ (if length (df_states form) < 1 then [(''states'', ''At least one state is required'')]
        else [])
     @ concat (map transitionRowSchema (enumerate 0 (df_transitions form)))"

text \<open>
  Submitting the definition form: the handler passes the data on only when the schema
  reports no error.
\<close>

definition submitDefinitionForm ::
    "WorkflowDefinitionFormData \<Rightarrow> WorkflowDefinitionFormData submission" where
  "submitDefinitionForm form =
     (let errors = definitionSchema form
      in if errors = [] then Request form else Rejected errors)"

text \<open>
  The switch \<^verbatim>\<open>Initial State\<close> of the state at \<open>index\<close>: the flag of that state
  takes the switch's value, and when the switch is turned on the flag of every other
  state is cleared.
\<close>

definition onInitialChange :: "nat \<Rightarrow> bool \<Rightarrow> StateFormData list \<Rightarrow> StateFormData list" where
  "onInitialChange index checked states =
     map (\<lambda>p. case p of (i, s) \<Rightarrow>
            if i = index then s\<lparr> sf_is_initial := checked \<rparr>
            else if checked then s\<lparr> sf_is_initial := False \<rparr>
            else s)
         (enumerate 0 states)"

text \<open>The switch \<^verbatim>\<open>Final State\<close> changes the flag of its own state only.\<close>

definition onFinalChange :: "nat \<Rightarrow> bool \<Rightarrow> StateFormData list \<Rightarrow> StateFormData list" where
  "onFinalChange index checked states =
     map (\<lambda>p. case p of (i, s) \<Rightarrow> if i = index then s\<lparr> sf_is_final := checked \<rparr> else s)
         (enumerate 0 states)"

text \<open>The default values of a new form: one initial state, no transition.\<close>

definition defaultValues :: WorkflowDefinitionFormData where
  "defaultValues =
     \<lparr> df_name = '''', df_description = '''', df_version = ''1.0.0'',
       df_states = [\<lparr> sf_id = None, sf_name = ''Initial'', sf_description = ''Starting state'',
                       sf_is_initial = True, sf_is_final = False \<rparr>],
       df_transitions = [] \<rparr>"


section \<open>The rule engine: list conditions\<close>

text \<open>
  Modelled from the spec: the errors of the two engines (section 7). The rule engine and
  the workflow engine are Python modules that are not among the sources; only the
  frontend that calls them through the API is.
\<close>

datatype engine_error =
    DuplicateRuleId
  | UnknownRule
  | EvaluationError
  | InvalidDefinition
  | UnknownDefinition
  | InvalidTransition
  | MaxHopsExceeded

text \<open>
  Modelled from the spec: the context of an instance, a mapping of strings to structured
  values, and the resolution of a field path in it (section 3: dot-separated segments
  addressing nested fields). The rule engine's field access is not among the sources.
\<close>

type_synonym "context" = "(string \<times> json) list"

fun split_on :: "char \<Rightarrow> string \<Rightarrow> string list" where
  "split_on c [] = [[]]"
| "split_on c (x # xs) =
     (if x = c then [] # split_on c xs
      else (case split_on c xs of
              [] \<Rightarrow> [[x]]
            | w # ws \<Rightarrow> (x # w) # ws))"

fun lookup_path :: "json \<Rightarrow> string list \<Rightarrow> json option" where
  "lookup_path v [] = Some v"
| "lookup_path (JObj ms) (k # ks) =
     (case map_of ms k of None \<Rightarrow> None | Some v \<Rightarrow> lookup_path v ks)"
| "lookup_path v (k # ks) = None"

definition resolve :: "context \<Rightarrow> string \<Rightarrow> json option" where
  "resolve ctx field_path = lookup_path (JObj ctx) (split_on CHR ''.'' field_path)"

text \<open>
  Modelled from the spec: the five list operations (section 4.1), on the list value of the
  field and the operand. The rule engine's list condition is not among the sources.
\<close>

datatype list_operation = contains_all | contains_any | equals | is_subset | is_superset

fun list_op :: "list_operation \<Rightarrow> json list \<Rightarrow> json list \<Rightarrow> bool" where
  "list_op contains_all field operand = list_all (\<lambda>x. x \<in> set field) operand"
| "list_op contains_any field operand = list_ex (\<lambda>x. x \<in> set field) operand"
| "list_op equals field operand = (set field = set operand)"
| "list_op is_subset field operand = list_all (\<lambda>x. x \<in> set operand) field"
| "list_op is_superset field operand = list_all (\<lambda>x. x \<in> set field) operand"

text \<open>
  Modelled from the spec: the evaluation of a ListOp condition against a context
  (sections 3, 4.1 and 7). A malformed operand (not a list) and a field value that is not
  a list fail with EvaluationError; a field path that is missing from the context
  evaluates to false. The rule engine's evaluator is not among the sources.
\<close>

record ListOp =
  lo_field_path :: string
  lo_operation :: list_operation
  lo_operand :: json

definition evaluate_list_op :: "context \<Rightarrow> ListOp \<Rightarrow> engine_error + bool" where
  "evaluate_list_op ctx c =
     (case lo_operand c of
        JArr operand \<Rightarrow>
          (case resolve ctx (lo_field_path c) of
             None \<Rightarrow> Inr False
           | Some (JArr field) \<Rightarrow> Inr (list_op (lo_operation c) field operand)
           | Some _ \<Rightarrow> Inl EvaluationError)
      | _ \<Rightarrow> Inl EvaluationError)"


section \<open>The workflow engine\<close>

text \<open>
  Modelled from the spec: the data model of the workflow engine (section 3), whose
  classes are not among the sources. Prefixes: \<open>s_\<close> for a State, \<open>t_\<close> for a
  Transition, \<open>d_\<close> for a WorkflowDefinition, \<open>h_\<close> for a HistoryEntry and \<open>i_\<close> for a
  WorkflowInstance of the engine. The timestamp is a reading of a clock that the caller
  supplies.
\<close>

datatype kind = Start | Normal | End

record EngineState =
  s_id :: string
  s_name :: string
  s_kind :: kind

record EngineTransition =
  t_id :: string
  t_source_state_id :: string
  t_target_state_id :: string
  t_rule_id :: "string option"

record EngineDefinition =
  d_id :: string
  d_name :: string
  d_version :: string
  d_states :: "EngineState list"
  d_transitions :: "EngineTransition list"

datatype status = Active | Completed | Terminated | Failed

record HistoryEntry =
  h_from_state_id :: "string option"
  h_to_state_id :: string
  h_transition_id :: "string option"
  h_timestamp :: nat
  h_context_snapshot :: "context"

record EngineInstance =
  i_id :: string
  i_definition_id :: string
  i_current_state_id :: string
  i_context :: "context"
  i_status :: status
  i_history :: "HistoryEntry list"

text \<open>
  Modelled from the spec: \<open>RuleEngine.evaluate(rule_id, context)\<close> as the workflow
  engine sees it (sections 4.1 and 6), a rule engine handed to the workflow engine. It
  returns a boolean or fails in one of two ways: the rule is not registered
  (UnknownRule), or a condition is malformed (EvaluationError). The rule engine is not
  among the sources.
\<close>

datatype evaluation_failure = unknown_rule | malformed

fun raised :: "evaluation_failure \<Rightarrow> engine_error" where
  "raised unknown_rule = UnknownRule"
| "raised malformed = EvaluationError"

type_synonym rule_engine = "string \<Rightarrow> context \<Rightarrow> evaluation_failure + bool"

text \<open>
  Modelled from the spec: \<open>create_instance\<close> (section 4.3), which is not among the
  sources: UnknownDefinition for a definition that is not registered, otherwise an active
  instance at the start State with one initial history entry. A registered definition
  has a start State, validation having accepted it; the remaining branch is for a
  registry that holds another one.
\<close>

definition create_instance ::
    "EngineDefinition list \<Rightarrow> string \<Rightarrow> context \<Rightarrow> string \<Rightarrow> nat
       \<Rightarrow> engine_error + EngineInstance" where
  "create_instance registry definition_id initial_context new_id now =
     (case find (\<lambda>d. d_id d = definition_id) registry of
        None \<Rightarrow> Inl UnknownDefinition
      | Some d \<Rightarrow>
          (case find (\<lambda>s. s_kind s = Start) (d_states d) of
             None \<Rightarrow> Inl InvalidDefinition
           | Some s \<Rightarrow>
               Inr \<lparr> i_id = new_id, i_definition_id = definition_id,
                     i_current_state_id = s_id s, i_context = initial_context,
                     i_status = Active,
                     i_history =
                       [\<lparr> h_from_state_id = None, h_to_state_id = s_id s,
                          h_transition_id = None, h_timestamp = now,
                          h_context_snapshot = initial_context \<rparr>] \<rparr>))"

text \<open>
  Modelled from the spec: the commit of a transition (section 4.3, step 3 and 5), which
  is not among the sources: the current State becomes the target, one history entry is
  appended, and the instance is completed when the target is an end State.
\<close>

definition is_end :: "EngineDefinition \<Rightarrow> string \<Rightarrow> bool" where
  "is_end d state_id = list_ex (\<lambda>s. s_id s = state_id \<and> s_kind s = End) (d_states d)"

definition commit :: "EngineDefinition \<Rightarrow> nat \<Rightarrow> EngineInstance \<Rightarrow> EngineTransition
    \<Rightarrow> EngineInstance" where
  "commit d now inst t =
     inst\<lparr> i_current_state_id := t_target_state_id t,
           i_status := (if is_end d (t_target_state_id t) then Completed else i_status inst),
           i_history := i_history inst
             @ [\<lparr> h_from_state_id = Some (i_current_state_id inst),
                  h_to_state_id = t_target_state_id t,
                  h_transition_id = Some (t_id t), h_timestamp = now,
                  h_context_snapshot = i_context inst \<rparr>] \<rparr>"

text \<open>
  Modelled from the spec: the outgoing Transitions of the current State in their defined
  order, and the first of them that matches (section 4.3, steps 1 and 2): an unconditional
  Transition matches, a guarded one when the rule engine evaluates its rule to true; an
  error of the rule engine is passed on. The engine's loop is not among the sources.
\<close>

definition outgoing :: "EngineDefinition \<Rightarrow> EngineInstance \<Rightarrow> EngineTransition list" where
  "outgoing d inst =
     filter (\<lambda>t. t_source_state_id t = i_current_state_id inst) (d_transitions d)"

definition matches :: "rule_engine \<Rightarrow> context \<Rightarrow> EngineTransition \<Rightarrow> engine_error + bool" where
  "matches evaluate ctx t =
     (case t_rule_id t of
        None \<Rightarrow> Inr True
      | Some rule_id \<Rightarrow>
          (case evaluate rule_id ctx of Inl f \<Rightarrow> Inl (raised f) | Inr b \<Rightarrow> Inr b))"

fun first_match ::
    "rule_engine \<Rightarrow> context \<Rightarrow> EngineTransition list \<Rightarrow> engine_error + EngineTransition option"
  where
  "first_match evaluate ctx [] = Inr None"
| "first_match evaluate ctx (t # ts) =
     (case matches evaluate ctx t of
        Inl e \<Rightarrow> Inl e
      | Inr True \<Rightarrow> Inr (Some t)
      | Inr False \<Rightarrow> first_match evaluate ctx ts)"

text \<open>
  Modelled from the spec: \<open>run_instance(instance_id, max_hops)\<close> (sections 4.3 and 5),
  which is not among the sources. The loop commits the first matching Transition and goes
  on from the new State; it stops, the instance staying active, when no Transition
  matches, and stops when the new State is an end State. A commit beyond the budget is
  refused with MaxHopsExceeded and the instance stays as the last commit left it. An
  error of the rule engine is an execution error: the instance becomes failed. The result
  is the error, if any, and the instance as the call leaves it.
\<close>

fun run_instance ::
    "rule_engine \<Rightarrow> EngineDefinition \<Rightarrow> nat \<Rightarrow> EngineInstance \<Rightarrow> nat
       \<Rightarrow> engine_error option \<times> EngineInstance" where
  "run_instance evaluate d now inst max_hops =
     (case first_match evaluate (i_context inst) (outgoing d inst) of
        Inl e \<Rightarrow> (Some e, inst\<lparr> i_status := Failed \<rparr>)
      | Inr None \<Rightarrow> (None, inst)
      | Inr (Some t) \<Rightarrow>
          (case max_hops of
             0 \<Rightarrow> (Some MaxHopsExceeded, inst)
           | Suc remaining \<Rightarrow>
               (if is_end d (t_target_state_id t) then (None, commit d now inst t)
                else run_instance evaluate d now (commit d now inst t) remaining)))"

declare run_instance.simps [simp del]

text \<open>
  Modelled from the spec: the merge of a data patch into the context and
  \<open>transition_instance(instance_id, transition_id, data_patch)\<close> (section 4.3), which
  are not among the sources. The call fails with InvalidTransition when the Transition
  does not originate from the current State of the instance or when its guard is false
  on the merged context; otherwise it commits with the merged context and runs no
  further.
\<close>

definition merge_patch :: "context \<Rightarrow> context \<Rightarrow> context" where
  "merge_patch ctx data_patch =
     data_patch @ filter (\<lambda>kv. fst kv \<notin> fst ` set data_patch) ctx"

definition transition_instance ::
    "rule_engine \<Rightarrow> EngineDefinition \<Rightarrow> nat \<Rightarrow> EngineInstance \<Rightarrow> string \<Rightarrow> context
       \<Rightarrow> engine_error + EngineInstance" where
  "transition_instance evaluate d now inst transition_id data_patch =
     (case find (\<lambda>t. t_id t = transition_id) (outgoing d inst) of
        None \<Rightarrow> Inl InvalidTransition
      | Some t \<Rightarrow>
          (let merged = inst\<lparr> i_context := merge_patch (i_context inst) data_patch \<rparr>
           in case matches evaluate (i_context merged) t of
                Inl e \<Rightarrow> Inl e
              | Inr False \<Rightarrow> Inl InvalidTransition
              | Inr True \<Rightarrow> Inr (commit d now merged t)))"

text \<open>
  Modelled from the spec: the instances that the engine's operations produce from a
  registry of definitions (section 6): created by \<open>create_instance\<close>, then changed by
  \<open>run_instance\<close> and \<open>transition_instance\<close> only (section 3, lifecycle).
\<close>

inductive produced :: "rule_engine \<Rightarrow> EngineDefinition list \<Rightarrow> EngineInstance \<Rightarrow> bool"
  for evaluate :: rule_engine and registry :: "EngineDefinition list" where
  created:
    "create_instance registry definition_id initial_context new_id now = Inr inst
     \<Longrightarrow> produced evaluate registry inst"
| ran:
    "produced evaluate registry inst
     \<Longrightarrow> d \<in> set registry
     \<Longrightarrow> run_instance evaluate d now inst max_hops = (err, inst')
     \<Longrightarrow> produced evaluate registry inst'"
| transitioned:
    "produced evaluate registry inst
     \<Longrightarrow> d \<in> set registry
     \<Longrightarrow> transition_instance evaluate d now inst transition_id data_patch = Inr inst'
     \<Longrightarrow> produced evaluate registry inst'"

text \<open>
  What claim C6 says of a history: it starts with the one initial entry, whose
  \<open>from_state_id\<close> and \<open>transition_id\<close> are null, and both are set on every later
  entry.
\<close>

definition history_shape :: "HistoryEntry list \<Rightarrow> bool" where
  "history_shape h =
     (case h of
        [] \<Rightarrow> False
      | e # es \<Rightarrow>
          h_from_state_id e = None \<and> h_transition_id e = None
          \<and> list_all (\<lambda>x. h_from_state_id x \<noteq> None \<and> h_transition_id x \<noteq> None) es)"


text \<open>
  The scenario of the spec's section 8: one State \<open>X\<close>, which is the start State, and an
  unconditional Transition from \<open>X\<close> to \<open>X\<close>; and a rule engine that knows no rule.
\<close>

definition cycle_definition :: EngineDefinition where
  "cycle_definition =
     \<lparr> d_id = ''cycle'', d_name = ''Cycle'', d_version = ''1'',
       d_states = [\<lparr> s_id = ''X'', s_name = ''X'', s_kind = Start \<rparr>],
       d_transitions =
         [\<lparr> t_id = ''loop'', t_source_state_id = ''X'', t_target_state_id = ''X'',
            t_rule_id = None \<rparr>] \<rparr>"

definition cycle_instance :: EngineInstance where
  "cycle_instance =
     \<lparr> i_id = ''i1'', i_definition_id = ''cycle'', i_current_state_id = ''X'',
       i_context = [], i_status = Active,
       i_history =
         [\<lparr> h_from_state_id = None, h_to_state_id = ''X'', h_transition_id = None,
            h_timestamp = 0, h_context_snapshot = [] \<rparr>] \<rparr>"

definition no_rules :: rule_engine where
  "no_rules rule_id ctx = Inl unknown_rule"


section \<open>The workflow engine: validation and the registry\<close>

text \<open>
  Modelled from the spec: the findings of \<open>validate\<close> (section 4.2), each tagged
  \<open>error\<close> or \<open>warning\<close>. The validation of the engine, which the usage notes of the
  repository call \<^verbatim>\<open>workflow.validate()\<close>, is not among the sources.
\<close>

datatype severity = error | warning

datatype anomaly =
    duplicate_state_id string
  | duplicate_transition_id string
  | start_state_count nat
  | missing_state string string
  | unreachable_state string
  | self_transition string
  | duplicate_edge string

type_synonym finding = "severity \<times> anomaly"

text \<open>
  Modelled from the spec: check (1) of \<open>validate\<close>, the uniqueness of State ids and of
  Transition ids. An id is reported at each occurrence that is followed by another one.
\<close>

fun duplicates :: "string list \<Rightarrow> string list" where
  "duplicates [] = []"
| "duplicates (x # xs) = (if x \<in> set xs then [x] else []) @ duplicates xs"

definition state_ids :: "EngineDefinition \<Rightarrow> string list" where
  "state_ids d = map s_id (d_states d)"

definition uniqueness_findings :: "EngineDefinition \<Rightarrow> finding list" where
  "uniqueness_findings d =
     map (\<lambda>i. (error, duplicate_state_id i)) (duplicates (state_ids d))
     @ map (\<lambda>i. (error, duplicate_transition_id i)) (duplicates (map t_id (d_transitions d)))"

text \<open>Modelled from the spec: check (2) of \<open>validate\<close>, exactly one start State.\<close>

definition start_states :: "EngineDefinition \<Rightarrow> EngineState list" where
  "start_states d = filter (\<lambda>s. s_kind s = Start) (d_states d)"

definition start_findings :: "EngineDefinition \<Rightarrow> finding list" where
  "start_findings d =
     (if length (start_states d) = 1 then []
      else [(error, start_state_count (length (start_states d)))])"

text \<open>
  Modelled from the spec: check (3) of \<open>validate\<close>, the referential integrity of the
  endpoints of every Transition.
\<close>

definition endpoint_findings :: "EngineDefinition \<Rightarrow> EngineTransition \<Rightarrow> finding list" where
  "endpoint_findings d t =
     (if t_source_state_id t \<in> set (state_ids d) then []
      else [(error, missing_state (t_id t) (t_source_state_id t))])
     @ (if t_target_state_id t \<in> set (state_ids d) then []
        else [(error, missing_state (t_id t) (t_target_state_id t))])"

definition reference_findings :: "EngineDefinition \<Rightarrow> finding list" where
  "reference_findings d = concat (map (endpoint_findings d) (d_transitions d))"

text \<open>
  Modelled from the spec: check (4) of \<open>validate\<close>, the traversal from the start State
  over the Transitions as directed edges, guards ignored, which flags the States it does
  not reach. Each round adds the targets of the Transitions that leave a State already
  reached; as many rounds as there are Transitions reach every State that can be
  reached. The spec names no severity for this finding and allows a State that is
  unreachable by design (section 3): it is a warning here.
\<close>

fun reach :: "EngineTransition list \<Rightarrow> nat \<Rightarrow> string list \<Rightarrow> string list" where
  "reach ts 0 seen = seen"
| "reach ts (Suc n) seen =
     reach ts n
       (remdups (seen @ map t_target_state_id
                          (filter (\<lambda>t. t_source_state_id t \<in> set seen) ts)))"

definition reachability_findings :: "EngineDefinition \<Rightarrow> finding list" where
  "reachability_findings d =
     (case start_states d of
        [s] \<Rightarrow>
          map (\<lambda>i. (warning, unreachable_state i))
            (filter (\<lambda>i. i \<notin> set (reach (d_transitions d) (length (d_transitions d)) [s_id s]))
               (state_ids d))
      | _ \<Rightarrow> [])"

text \<open>
  Modelled from the spec: check (5) of \<open>validate\<close>, the warnings for a self-transition
  and for a Transition whose two endpoints are those of an earlier Transition.
\<close>

fun duplicate_edges ::
    "(string \<times> string) list \<Rightarrow> EngineTransition list \<Rightarrow> EngineTransition list" where
  "duplicate_edges seen [] = []"
| "duplicate_edges seen (t # ts) =
     (if (t_source_state_id t, t_target_state_id t) \<in> set seen then [t] else [])
     @ duplicate_edges ((t_source_state_id t, t_target_state_id t) # seen) ts"

definition anomaly_findings :: "EngineDefinition \<Rightarrow> finding list" where
  "anomaly_findings d =
     map (\<lambda>t. (warning, self_transition (t_id t)))
       (filter (\<lambda>t. t_source_state_id t = t_target_state_id t) (d_transitions d))
     @ map (\<lambda>t. (warning, duplicate_edge (t_id t))) (duplicate_edges [] (d_transitions d))"

text \<open>
  Modelled from the spec: \<open>validate\<close> (section 4.2), the five checks in their order,
  and \<open>register_definition\<close> (sections 4.2 and 6): a definition with a finding tagged
  \<open>error\<close> fails with InvalidDefinition, surfaced with the findings, and the registry
  stays as it is; any other definition is added to the registry. Neither is among the
  sources.
\<close>

definition validate :: "EngineDefinition \<Rightarrow> finding list" where
  "validate d =
     uniqueness_findings d @ start_findings d @ reference_findings d
     @ reachability_findings d @ anomaly_findings d"

definition has_error :: "finding list \<Rightarrow> bool" where
  "has_error findings = list_ex (\<lambda>f. fst f = error) findings"

definition register_definition ::
    "EngineDefinition list \<Rightarrow> EngineDefinition
       \<Rightarrow> (engine_error \<times> finding list) + (EngineDefinition list \<times> finding list)" where
  "register_definition registry d =
     (let findings = validate d
      in if has_error findings then Inl (InvalidDefinition, findings)
         else Inr (registry @ [d], findings))"

text \<open>
  Modelled from the spec: the registries of the engine, which start empty and change by
  \<open>register_definition\<close> only (section 3: a definition is owned by the registry once
  validated).
\<close>

inductive is_registry :: "EngineDefinition list \<Rightarrow> bool" where
  empty: "is_registry []"
| registered:
    "is_registry r \<Longrightarrow> register_definition r d = Inr (r', findings) \<Longrightarrow> is_registry r'"


text \<open>
  A definition with each of the three defects of the spec's section 8: two States share
  the id \<open>A\<close>, neither is a start State, and the Transition \<open>go\<close> leads to a State
  \<open>Z\<close> that does not exist.
\<close>

definition broken_definition :: EngineDefinition where
  "broken_definition =
     \<lparr> d_id = ''broken'', d_name = ''Broken'', d_version = ''1'',
       d_states = [\<lparr> s_id = ''A'', s_name = ''First'', s_kind = Normal \<rparr>,
                   \<lparr> s_id = ''A'', s_name = ''Second'', s_kind = End \<rparr>],
       d_transitions =
         [\<lparr> t_id = ''go'', t_source_state_id = ''A'', t_target_state_id = ''Z'',
            t_rule_id = None \<rparr>] \<rparr>"


chapter \<open>Properties\<close>

section \<open>The state diagram\<close>

lemma createEdge_None_iff: "createEdge (i, t) = None \<longleftrightarrow> \<not> drawn t"
  by (auto simp: createEdge_def drawn_def truthy_def Let_def)

lemma createEdge_ends:
  "createEdge (i, t) = Some e \<Longrightarrow>
     edge_source e = sdt_from_state_id t \<and> edge_target e = sdt_to_state_id t
     \<and> edge_id e = or_else (sdt_id t) (''e'' @ toString i)"
  by (auto simp: createEdge_def Let_def split: if_splits)

lemma createEdges_ends_from:
  "map (\<lambda>e. (edge_source e, edge_target e))
       (map the (filter (\<lambda>e. e \<noteq> None) (map createEdge (enumerate n ts))))
   = map (\<lambda>t. (sdt_from_state_id t, sdt_to_state_id t)) (filter drawn ts)"
proof (induction ts arbitrary: n)
  case Nil
  show ?case by simp
next
  case (Cons t ts)
  show ?case
  proof (cases "createEdge (n, t)")
    case None
    then have "\<not> drawn t" by (simp add: createEdge_None_iff)
    with None Cons.IH [of "Suc n"] show ?thesis by simp
  next
    case (Some e)
    then have "drawn t" using createEdge_None_iff [of n t] by auto
    with Some createEdge_ends [OF Some] Cons.IH [of "Suc n"] show ?thesis by simp
  qed
qed

lemma createNodes_ids_from:
  "map node_id (map createNode (enumerate n states))
   = map (\<lambda>p. or_else (sd_id (snd p)) (toString (fst p))) (enumerate n states)"
  by (induction states arbitrary: n) (simp_all add: createNode_def)

text \<open>
  Claim C10. StateDiagram produces exactly one node per state, in order, identified by
  the state's id, or by the decimal numeral of its list index when the id is absent (the
  source's test \<^verbatim>\<open>state.id || index.toString()\<close>, for which an undefined and an
  empty id are both absent); and exactly one edge per transition whose from_state_id and
  to_state_id are both non-empty and different, in order and with these endpoints. A
  self-transition or a transition with a missing endpoint produces no edge.
\<close>

theorem StateDiagram_nodes_and_edges:
  "length (createNodes states) = length states
   \<and> map node_id (createNodes states)
       = map (\<lambda>p. case sd_id (snd p) of
                     None \<Rightarrow> toString (fst p)
                   | Some s \<Rightarrow> if s = [] then toString (fst p) else s) (enumerate 0 states)
   \<and> length (createEdges transitions) = length (filter drawn transitions)
   \<and> map (\<lambda>e. (edge_source e, edge_target e)) (createEdges transitions)
       = map (\<lambda>t. (sdt_from_state_id t, sdt_to_state_id t)) (filter drawn transitions)
   \<and> (createEdge (i, t) = None
        \<longleftrightarrow> (sdt_from_state_id t = sdt_to_state_id t
             \<or> sdt_from_state_id t = [] \<or> sdt_to_state_id t = []))"
proof -
  have nodes: "map node_id (createNodes states)
       = map (\<lambda>p. case sd_id (snd p) of
                     None \<Rightarrow> toString (fst p)
                   | Some s \<Rightarrow> if s = [] then toString (fst p) else s) (enumerate 0 states)"
    unfolding createNodes_def createNodes_ids_from
    by (rule map_cong) (auto simp: or_else_def truthy_def split: option.splits)
  have ends: "map (\<lambda>e. (edge_source e, edge_target e)) (createEdges transitions)
       = map (\<lambda>t. (sdt_from_state_id t, sdt_to_state_id t)) (filter drawn transitions)"
    unfolding createEdges_def by (rule createEdges_ends_from)
  have len: "length (createEdges transitions) = length (filter drawn transitions)"
    using arg_cong [OF ends, of length] by simp
  have none: "createEdge (i, t) = None
        \<longleftrightarrow> (sdt_from_state_id t = sdt_to_state_id t
             \<or> sdt_from_state_id t = [] \<or> sdt_to_state_id t = [])"
    by (auto simp: createEdge_None_iff drawn_def)
  show ?thesis
    using nodes ends len none by (simp add: createNodes_def)
qed

lemma toString_digit: "n < 10 \<Longrightarrow> toString n = [digit n]"
  by (simp add: toString.simps)

lemma digit_1: "digit (Suc 0) = CHR ''1''"
  by code_simp

lemma digit_2: "digit (Suc (Suc 0)) = CHR ''2''"
  by code_simp

theorem StateDiagram_nodes_and_edges_witness:
  "map node_id (createNodes
      [\<lparr>sd_id = Some ''draft'', sd_name = ''Draft'', sd_is_initial = Some True, sd_is_final = None\<rparr>,
       \<lparr>sd_id = None, sd_name = ''Review'', sd_is_initial = None, sd_is_final = None\<rparr>,
       \<lparr>sd_id = Some [], sd_name = ''Done'', sd_is_initial = None, sd_is_final = Some True\<rparr>])
     = [''draft'', ''1'', ''2'']
   \<and> map (\<lambda>e. (edge_source e, edge_target e)) (createEdges
      [\<lparr>sdt_id = None, sdt_name = ''go'', sdt_from_state_id = ''draft'', sdt_to_state_id = ''1''\<rparr>,
       \<lparr>sdt_id = None, sdt_name = ''loop'', sdt_from_state_id = ''1'', sdt_to_state_id = ''1''\<rparr>,
       \<lparr>sdt_id = None, sdt_name = ''open'', sdt_from_state_id = ''1'', sdt_to_state_id = []\<rparr>])
     = [(''draft'', ''1'')]
   \<and> createEdge (1,
       \<lparr>sdt_id = None, sdt_name = ''loop'', sdt_from_state_id = ''1'', sdt_to_state_id = ''1''\<rparr>)
     = None"
  using StateDiagram_nodes_and_edges
    [of "[\<lparr>sd_id = Some ''draft'', sd_name = ''Draft'', sd_is_initial = Some True, sd_is_final = None\<rparr>,
       \<lparr>sd_id = None, sd_name = ''Review'', sd_is_initial = None, sd_is_final = None\<rparr>,
       \<lparr>sd_id = Some [], sd_name = ''Done'', sd_is_initial = None, sd_is_final = Some True\<rparr>]"
        "[\<lparr>sdt_id = None, sdt_name = ''go'', sdt_from_state_id = ''draft'', sdt_to_state_id = ''1''\<rparr>,
       \<lparr>sdt_id = None, sdt_name = ''loop'', sdt_from_state_id = ''1'', sdt_to_state_id = ''1''\<rparr>,
       \<lparr>sdt_id = None, sdt_name = ''open'', sdt_from_state_id = ''1'', sdt_to_state_id = []\<rparr>]"
        1
        "\<lparr>sdt_id = None, sdt_name = ''loop'', sdt_from_state_id = ''1'', sdt_to_state_id = ''1''\<rparr>"]
  by (simp add: drawn_def toString_digit digit_1 digit_2)

section \<open>The JSON text of the instance forms\<close>

lemma is_valid_json_iff:
  "is_valid_json parse v \<longleftrightarrow>
     (v = None \<or> v = Some [] \<or> (\<exists>text j. v = Some text \<and> parse text = Some j))"
  by (auto simp: is_valid_json_def truthy_def split: option.splits)

lemma parsedData_cases:
  "parsedData parse v = Some d \<Longrightarrow>
     (case v of
        None \<Rightarrow> d = JObj []
      | Some text \<Rightarrow> if text = [] then d = JObj [] else parse text = Some d)"
  by (auto simp: parsedData_def truthy_def split: option.splits if_splits)

lemma submitTransitionForm_Request:
  "submitTransitionForm parse form = Request r \<Longrightarrow>
     treq_transition_id r = tf_transition_id form \<and> tf_transition_id form \<noteq> []
     \<and> parsedData parse (tf_data form) = Some (treq_data r)"
  by (auto simp: submitTransitionForm_def handleTransitionSubmit_def transitionSchema_def
        required_def Let_def split: if_splits option.splits)

lemma submitInstanceForm_Request:
  "submitInstanceForm parse form = Request r \<Longrightarrow>
     creq_workflow_definition_id r = fd_workflow_definition_id form
     \<and> fd_workflow_definition_id form \<noteq> []
     \<and> parsedData parse (fd_data form) = Some (creq_data r)"
  by (auto simp: submitInstanceForm_def handleFormSubmit_def schema_def
        required_def Let_def split: if_splits option.splits)

lemma transitionSchema_data:
  "(''data'', ''Invalid JSON format'') \<in> set (transitionSchema parse form)
     \<longleftrightarrow> \<not> is_valid_json parse (tf_data form)"
  by (auto simp: transitionSchema_def required_def)

lemma schema_data:
  "(''data'', ''Invalid JSON format'') \<in> set (schema parse form)
     \<longleftrightarrow> \<not> is_valid_json parse (fd_data form)"
  by (auto simp: schema_def required_def)

lemma submitTransitionForm_invalid:
  "\<not> is_valid_json parse (tf_data form) \<Longrightarrow>
     submitTransitionForm parse form = Rejected (transitionSchema parse form)"
  by (auto simp: submitTransitionForm_def transitionSchema_def Let_def)

lemma submitInstanceForm_invalid:
  "\<not> is_valid_json parse (fd_data form) \<Longrightarrow>
     submitInstanceForm parse form = Rejected (schema parse form)"
  by (auto simp: submitInstanceForm_def schema_def Let_def)

lemma submitTransitionForm_never_throws: "submitTransitionForm parse form \<noteq> Threw"
  by (auto simp: submitTransitionForm_def handleTransitionSubmit_def transitionSchema_def
        is_valid_json_def parsedData_def required_def Let_def split: if_splits option.splits)

lemma json_text_requests:
  "((''data'', ''Invalid JSON format'') \<notin> set (transitionSchema parse tf)
      \<longleftrightarrow> (tf_data tf = None \<or> tf_data tf = Some []
           \<or> (\<exists>text j. tf_data tf = Some text \<and> parse text = Some j)))
   \<and> ((''data'', ''Invalid JSON format'') \<notin> set (schema parse fd)
      \<longleftrightarrow> (fd_data fd = None \<or> fd_data fd = Some []
           \<or> (\<exists>text j. fd_data fd = Some text \<and> parse text = Some j)))
   \<and> (submitTransitionForm parse tf = Request r \<longrightarrow>
        (case tf_data tf of
           None \<Rightarrow> treq_data r = JObj []
         | Some text \<Rightarrow> if text = [] then treq_data r = JObj []
                        else parse text = Some (treq_data r)))
   \<and> (submitInstanceForm parse fd = Request c \<longrightarrow>
        (case fd_data fd of
           None \<Rightarrow> creq_data c = JObj []
         | Some text \<Rightarrow> if text = [] then creq_data c = JObj []
                        else parse text = Some (creq_data c)))
   \<and> (tf_data tf = Some text \<and> text \<noteq> [] \<and> parse text = None \<longrightarrow>
        submitTransitionForm parse tf = Rejected (transitionSchema parse tf)
        \<and> (''data'', ''Invalid JSON format'') \<in> set (transitionSchema parse tf))
   \<and> (fd_data fd = Some text \<and> text \<noteq> [] \<and> parse text = None \<longrightarrow>
        submitInstanceForm parse fd = Rejected (schema parse fd)
        \<and> (''data'', ''Invalid JSON format'') \<in> set (schema parse fd))"
proof -
  have a: "(''data'', ''Invalid JSON format'') \<notin> set (transitionSchema parse tf)
      \<longleftrightarrow> (tf_data tf = None \<or> tf_data tf = Some []
           \<or> (\<exists>text j. tf_data tf = Some text \<and> parse text = Some j))"
    by (simp only: transitionSchema_data is_valid_json_iff not_not)
  have b: "(''data'', ''Invalid JSON format'') \<notin> set (schema parse fd)
      \<longleftrightarrow> (fd_data fd = None \<or> fd_data fd = Some []
           \<or> (\<exists>text j. fd_data fd = Some text \<and> parse text = Some j))"
    by (simp only: schema_data is_valid_json_iff not_not)
  have c: "submitTransitionForm parse tf = Request r \<longrightarrow>
        (case tf_data tf of
           None \<Rightarrow> treq_data r = JObj []
         | Some text \<Rightarrow> if text = [] then treq_data r = JObj []
                        else parse text = Some (treq_data r))"
    using submitTransitionForm_Request [of parse tf r] parsedData_cases [of parse "tf_data tf"]
    by blast
  have d: "submitInstanceForm parse fd = Request c \<longrightarrow>
        (case fd_data fd of
           None \<Rightarrow> creq_data c = JObj []
         | Some text \<Rightarrow> if text = [] then creq_data c = JObj []
                        else parse text = Some (creq_data c))"
    using submitInstanceForm_Request [of parse fd c] parsedData_cases [of parse "fd_data fd"]
    by blast
  have e: "tf_data tf = Some text \<and> text \<noteq> [] \<and> parse text = None \<longrightarrow>
        submitTransitionForm parse tf = Rejected (transitionSchema parse tf)
        \<and> (''data'', ''Invalid JSON format'') \<in> set (transitionSchema parse tf)"
  proof
    assume h: "tf_data tf = Some text \<and> text \<noteq> [] \<and> parse text = None"
    then have "\<not> is_valid_json parse (tf_data tf)"
      by (simp add: is_valid_json_def truthy_def)
    then show "submitTransitionForm parse tf = Rejected (transitionSchema parse tf)
        \<and> (''data'', ''Invalid JSON format'') \<in> set (transitionSchema parse tf)"
      by (simp add: submitTransitionForm_invalid transitionSchema_data)
  qed
  have f: "fd_data fd = Some text \<and> text \<noteq> [] \<and> parse text = None \<longrightarrow>
        submitInstanceForm parse fd = Rejected (schema parse fd)
        \<and> (''data'', ''Invalid JSON format'') \<in> set (schema parse fd)"
  proof
    assume h: "fd_data fd = Some text \<and> text \<noteq> [] \<and> parse text = None"
    then have "\<not> is_valid_json parse (fd_data fd)"
      by (simp add: is_valid_json_def truthy_def)
    then show "submitInstanceForm parse fd = Rejected (schema parse fd)
        \<and> (''data'', ''Invalid JSON format'') \<in> set (schema parse fd)"
      by (simp add: submitInstanceForm_invalid schema_data)
  qed
  from a b c d e f show ?thesis by blast
qed

lemma transitionSchema_Nil_iff:
  "transitionSchema parse form = []
     \<longleftrightarrow> tf_transition_id form \<noteq> [] \<and> is_valid_json parse (tf_data form)"
  by (simp add: transitionSchema_def required_def)

lemma schema_Nil_iff:
  "schema parse form = []
     \<longleftrightarrow> fd_workflow_definition_id form \<noteq> [] \<and> is_valid_json parse (fd_data form)"
  by (simp add: schema_def required_def)

lemma parsedData_valid:
  "is_valid_json parse v \<Longrightarrow>
     parsedData parse v
       = Some (case v of
                 None \<Rightarrow> JObj []
               | Some text \<Rightarrow> if text = [] then JObj [] else the (parse text))"
  by (auto simp: is_valid_json_def parsedData_def truthy_def split: option.splits if_splits)

lemma submitTransitionForm_eq:
  "submitTransitionForm parse form
     = (if transitionSchema parse form = []
        then Request \<lparr> treq_transition_id = tf_transition_id form,
                       treq_data = (case tf_data form of
                                      None \<Rightarrow> JObj []
                                    | Some text \<Rightarrow> if text = [] then JObj []
                                                   else the (parse text)) \<rparr>
        else Rejected (transitionSchema parse form))"
proof (cases "transitionSchema parse form = []")
  case True
  then have "is_valid_json parse (tf_data form)"
    by (simp add: transitionSchema_Nil_iff)
  from parsedData_valid [OF this] True show ?thesis
    by (simp add: submitTransitionForm_def handleTransitionSubmit_def Let_def)
next
  case False
  then show ?thesis
    by (simp add: submitTransitionForm_def Let_def)
qed

lemma submitInstanceForm_eq:
  "submitInstanceForm parse form
     = (if schema parse form = []
        then Request \<lparr> creq_workflow_definition_id = fd_workflow_definition_id form,
                       creq_data = (case fd_data form of
                                      None \<Rightarrow> JObj []
                                    | Some text \<Rightarrow> if text = [] then JObj []
                                                   else the (parse text)) \<rparr>
        else Rejected (schema parse form))"
proof (cases "schema parse form = []")
  case True
  then have "is_valid_json parse (fd_data form)"
    by (simp add: schema_Nil_iff)
  from parsedData_valid [OF this] True show ?thesis
    by (simp add: submitInstanceForm_def handleFormSubmit_def Let_def)
next
  case False
  then show ?thesis
    by (simp add: submitInstanceForm_def Let_def)
qed

text \<open>
  Claim C9. Both instance forms accept their JSON data text exactly when it is empty
  (undefined or the empty string) or \<^verbatim>\<open>JSON.parse\<close> succeeds on it, and a form is
  accepted as a whole exactly when, besides, its required field is filled in. An accepted
  form makes a request, and the data of the request is the empty object for an empty
  text and \<^verbatim>\<open>JSON.parse\<close> of the text otherwise; a form that is not accepted is
  rejected with the messages of its schema and makes no request. A non-empty text that
  fails to parse is rejected with the message \<^verbatim>\<open>Invalid JSON format\<close> on the field
  \<^verbatim>\<open>data\<close>.
\<close>

theorem json_text_of_instance_forms:
  "((''data'', ''Invalid JSON format'') \<notin> set (transitionSchema parse tf)
      \<longleftrightarrow> (tf_data tf = None \<or> tf_data tf = Some []
           \<or> (\<exists>text j. tf_data tf = Some text \<and> parse text = Some j)))
   \<and> ((''data'', ''Invalid JSON format'') \<notin> set (schema parse fd)
      \<longleftrightarrow> (fd_data fd = None \<or> fd_data fd = Some []
           \<or> (\<exists>text j. fd_data fd = Some text \<and> parse text = Some j)))
   \<and> (transitionSchema parse tf = []
      \<longleftrightarrow> tf_transition_id tf \<noteq> []
          \<and> (tf_data tf = None \<or> tf_data tf = Some []
              \<or> (\<exists>text j. tf_data tf = Some text \<and> parse text = Some j)))
   \<and> (schema parse fd = []
      \<longleftrightarrow> fd_workflow_definition_id fd \<noteq> []
          \<and> (fd_data fd = None \<or> fd_data fd = Some []
              \<or> (\<exists>text j. fd_data fd = Some text \<and> parse text = Some j)))
   \<and> submitTransitionForm parse tf
       = (if transitionSchema parse tf = []
          then Request \<lparr> treq_transition_id = tf_transition_id tf,
                         treq_data = (case tf_data tf of
                                        None \<Rightarrow> JObj []
                                      | Some text \<Rightarrow> if text = [] then JObj []
                                                     else the (parse text)) \<rparr>
          else Rejected (transitionSchema parse tf))
   \<and> submitInstanceForm parse fd
       = (if schema parse fd = []
          then Request \<lparr> creq_workflow_definition_id = fd_workflow_definition_id fd,
                         creq_data = (case fd_data fd of
                                        None \<Rightarrow> JObj []
                                      | Some text \<Rightarrow> if text = [] then JObj []
                                                     else the (parse text)) \<rparr>
          else Rejected (schema parse fd))
   \<and> (submitTransitionForm parse tf = Request r \<longrightarrow>
        (case tf_data tf of
           None \<Rightarrow> treq_data r = JObj []
         | Some text \<Rightarrow> if text = [] then treq_data r = JObj []
                        else parse text = Some (treq_data r)))
   \<and> (submitInstanceForm parse fd = Request c \<longrightarrow>
        (case fd_data fd of
           None \<Rightarrow> creq_data c = JObj []
         | Some text \<Rightarrow> if text = [] then creq_data c = JObj []
                        else parse text = Some (creq_data c)))
   \<and> (tf_data tf = Some text \<and> text \<noteq> [] \<and> parse text = None \<longrightarrow>
        submitTransitionForm parse tf = Rejected (transitionSchema parse tf)
        \<and> (''data'', ''Invalid JSON format'') \<in> set (transitionSchema parse tf))
   \<and> (fd_data fd = Some text \<and> text \<noteq> [] \<and> parse text = None \<longrightarrow>
        submitInstanceForm parse fd = Rejected (schema parse fd)
        \<and> (''data'', ''Invalid JSON format'') \<in> set (schema parse fd))"
proof -
  have a: "transitionSchema parse tf = []
      \<longleftrightarrow> tf_transition_id tf \<noteq> []
          \<and> (tf_data tf = None \<or> tf_data tf = Some []
              \<or> (\<exists>text j. tf_data tf = Some text \<and> parse text = Some j))"
    by (simp only: transitionSchema_Nil_iff is_valid_json_iff)
  have b: "schema parse fd = []
      \<longleftrightarrow> fd_workflow_definition_id fd \<noteq> []
          \<and> (fd_data fd = None \<or> fd_data fd = Some []
              \<or> (\<exists>text j. fd_data fd = Some text \<and> parse text = Some j))"
    by (simp only: schema_Nil_iff is_valid_json_iff)
  from a b json_text_requests [of parse tf fd r c "text"]
    submitTransitionForm_eq [of parse tf] submitInstanceForm_eq [of parse fd]
  show ?thesis by blast
qed

theorem json_text_of_instance_forms_witness:
  "submitTransitionForm sample_parse \<lparr>tf_transition_id = ''t1'', tf_data = Some ''true''\<rparr>
     = Request \<lparr>treq_transition_id = ''t1'', treq_data = JBool True\<rparr>
   \<and> sample_parse ''true'' = Some (JBool True)
   \<and> submitTransitionForm sample_parse \<lparr>tf_transition_id = ''t1'', tf_data = Some []\<rparr>
     = Request \<lparr>treq_transition_id = ''t1'', treq_data = JObj []\<rparr>
   \<and> submitInstanceForm sample_parse \<lparr>fd_workflow_definition_id = ''d1'', fd_data = None\<rparr>
     = Request \<lparr>creq_workflow_definition_id = ''d1'', creq_data = JObj []\<rparr>
   \<and> sample_parse ''{x'' = None
   \<and> submitTransitionForm sample_parse \<lparr>tf_transition_id = ''t1'', tf_data = Some ''{x''\<rparr>
     = Rejected [(''data'', ''Invalid JSON format'')]
   \<and> submitInstanceForm sample_parse \<lparr>fd_workflow_definition_id = ''d1'', fd_data = Some ''{x''\<rparr>
     = Rejected [(''data'', ''Invalid JSON format'')]"
proof -
  note t1 = json_text_of_instance_forms
    [of sample_parse "\<lparr>tf_transition_id = ''t1'', tf_data = Some ''true''\<rparr>"
        "\<lparr>fd_workflow_definition_id = ''d1'', fd_data = None\<rparr>"
        "\<lparr>treq_transition_id = ''t1'', treq_data = JBool True\<rparr>"
        "\<lparr>creq_workflow_definition_id = ''d1'', creq_data = JObj []\<rparr>" "''true''"]
  note t2 = json_text_of_instance_forms
    [of sample_parse "\<lparr>tf_transition_id = ''t1'', tf_data = Some []\<rparr>"
        "\<lparr>fd_workflow_definition_id = ''d1'', fd_data = Some ''{x''\<rparr>"
        "\<lparr>treq_transition_id = ''t1'', treq_data = JObj []\<rparr>"
        "\<lparr>creq_workflow_definition_id = ''d1'', creq_data = JObj []\<rparr>" "''{x''"]
  note t3 = json_text_of_instance_forms
    [of sample_parse "\<lparr>tf_transition_id = ''t1'', tf_data = Some ''{x''\<rparr>"
        "\<lparr>fd_workflow_definition_id = ''d1'', fd_data = Some ''{x''\<rparr>"
        "\<lparr>treq_transition_id = ''t1'', treq_data = JObj []\<rparr>"
        "\<lparr>creq_workflow_definition_id = ''d1'', creq_data = JObj []\<rparr>" "''{x''"]
  have p: "sample_parse ''true'' = Some (JBool True)" "sample_parse ''{x'' = None"
    by (simp_all add: sample_parse_def)
  have s1: "transitionSchema sample_parse \<lparr>tf_transition_id = ''t1'', tf_data = Some ''true''\<rparr> = []"
    using t1 p by simp
  have s2: "transitionSchema sample_parse \<lparr>tf_transition_id = ''t1'', tf_data = Some []\<rparr> = []"
    using t2 by simp
  have s3: "schema sample_parse \<lparr>fd_workflow_definition_id = ''d1'', fd_data = None\<rparr> = []"
    using t1 by simp
  have s4: "transitionSchema sample_parse \<lparr>tf_transition_id = ''t1'', tf_data = Some ''{x''\<rparr>
              = [(''data'', ''Invalid JSON format'')]"
    by (simp add: transitionSchema_def required_def is_valid_json_def truthy_def p)
  have s5: "schema sample_parse \<lparr>fd_workflow_definition_id = ''d1'', fd_data = Some ''{x''\<rparr>
              = [(''data'', ''Invalid JSON format'')]"
    by (simp add: schema_def required_def is_valid_json_def truthy_def p)
  show ?thesis
    using t1 t2 t3 p s1 s2 s3 s4 s5 by simp
qed

section \<open>The type of a state\<close>

text \<open>
  Claim C5, as the frontend has it. A \<^verbatim>\<open>WorkflowState\<close> carries two independent
  flags, and the states table shows exactly one of four types for it: Initial & Final
  when both flags are set, Initial or Final when one is, Normal when none is. A state
  can be initial and final at once.
\<close>

theorem state_type_four_values:
  "stateTypeChip s \<in> {''Initial & Final'', ''Initial'', ''Final'', ''Normal''}
   \<and> (stateTypeChip s = ''Initial & Final'' \<longleftrightarrow> st_is_initial s \<and> st_is_final s)
   \<and> (stateTypeChip s = ''Initial'' \<longleftrightarrow> st_is_initial s \<and> \<not> st_is_final s)
   \<and> (stateTypeChip s = ''Final'' \<longleftrightarrow> \<not> st_is_initial s \<and> st_is_final s)
   \<and> (stateTypeChip s = ''Normal'' \<longleftrightarrow> \<not> st_is_initial s \<and> \<not> st_is_final s)"
  by (simp add: stateTypeChip_def)

theorem state_type_four_values_witness:
  "stateTypeChip \<lparr>st_id = ''s2'', st_name = ''Approved'', st_description = [],
                   st_is_initial = False, st_is_final = True\<rparr> = ''Final''"
  using state_type_four_values
    [of "\<lparr>st_id = ''s2'', st_name = ''Approved'', st_description = [],
          st_is_initial = False, st_is_final = True\<rparr>"]
  by simp

theorem state_initial_and_final_counterexample:
  "stateTypeChip \<lparr>st_id = ''s1'', st_name = ''Only'', st_description = [],
                   st_is_initial = True, st_is_final = True\<rparr> = ''Initial & Final''
   \<and> node_className (createNode (0,
        \<lparr>sd_id = Some ''s1'', sd_name = ''Only'', sd_is_initial = Some True,
          sd_is_final = Some True\<rparr>)) = ''initial-final-state''
   \<and> map (\<lambda>s. (sf_is_initial s, sf_is_final s))
        (onFinalChange 0 True (df_states defaultValues)) = [(True, True)]
   \<and> submitDefinitionForm
        (defaultValues\<lparr>df_name := ''w'',
           df_states := onFinalChange 0 True (df_states defaultValues)\<rparr>)
      = Request (defaultValues\<lparr>df_name := ''w'',
           df_states := onFinalChange 0 True (df_states defaultValues)\<rparr>)"
  by (simp add: stateTypeChip_def createNode_def flag_def onFinalChange_def defaultValues_def
        submitDefinitionForm_def definitionSchema_def stateSchema_def required_def Let_def)

section \<open>List conditions with an empty operand\<close>

lemma evaluate_list_op_list:
  "resolve ctx (lo_field_path c) = Some (JArr field) \<Longrightarrow> lo_operand c = JArr operand
     \<Longrightarrow> evaluate_list_op ctx c = Inr (list_op (lo_operation c) field operand)"
  by (simp add: evaluate_list_op_def)






section \<open>The budget of run_instance\<close>

lemma commit_history:
  "i_history (commit d now inst t)
     = i_history inst
       @ [\<lparr> h_from_state_id = Some (i_current_state_id inst),
            h_to_state_id = t_target_state_id t,
            h_transition_id = Some (t_id t), h_timestamp = now,
            h_context_snapshot = i_context inst \<rparr>]"
  by (simp add: commit_def)

lemma commit_state: "i_current_state_id (commit d now inst t) = t_target_state_id t"
  by (simp add: commit_def)

lemma commit_status:
  "\<not> is_end d (t_target_state_id t) \<Longrightarrow> i_status (commit d now inst t) = i_status inst"
  by (simp add: commit_def)

lemma matches_not_budget: "matches ev ctx t \<noteq> Inl MaxHopsExceeded"
proof (cases "t_rule_id t")
  case None
  then show ?thesis by (simp add: matches_def)
next
  case (Some r)
  show ?thesis
  proof (cases "ev r ctx")
    case (Inl f)
    with Some show ?thesis by (cases f) (simp_all add: matches_def)
  next
    case (Inr b)
    with Some show ?thesis by (simp add: matches_def)
  qed
qed

lemma first_match_not_budget: "first_match ev ctx ts \<noteq> Inl MaxHopsExceeded"
proof (induction ts)
  case Nil
  show ?case by simp
next
  case (Cons t ts)
  then show ?case
    using matches_not_budget [of ev ctx t]
    by (auto split: sum.splits bool.splits)
qed

lemma run_instance_commits:
  "\<exists>es. i_history (snd (run_instance ev d now inst n)) = i_history inst @ es
        \<and> length es \<le> n
        \<and> (fst (run_instance ev d now inst n) = Some MaxHopsExceeded \<longrightarrow>
             length es = n
             \<and> i_status (snd (run_instance ev d now inst n)) = i_status inst
             \<and> i_current_state_id (snd (run_instance ev d now inst n))
                 = (if es = [] then i_current_state_id inst else h_to_state_id (last es)))"
proof (induction n arbitrary: inst)
  case 0
  show ?case
    using first_match_not_budget [of ev "i_context inst" "outgoing d inst"]
    by (intro exI [of _ "[]"])
       (auto simp: run_instance.simps [of ev d now inst 0]
          split: sum.splits option.splits)
next
  case (Suc n)
  show ?case
  proof (cases "first_match ev (i_context inst) (outgoing d inst)")
    case (Inl e)
    then have "e \<noteq> MaxHopsExceeded"
      using first_match_not_budget [of ev "i_context inst" "outgoing d inst"] by auto
    with Inl show ?thesis
      by (intro exI [of _ "[]"])
         (simp add: run_instance.simps [of ev d now inst "Suc n"])
  next
    case (Inr found)
    show ?thesis
    proof (cases found)
      case None
      with Inr show ?thesis
        by (intro exI [of _ "[]"])
           (simp add: run_instance.simps [of ev d now inst "Suc n"])
    next
      case (Some t)
      let ?e = "\<lparr> h_from_state_id = Some (i_current_state_id inst),
            h_to_state_id = t_target_state_id t,
            h_transition_id = Some (t_id t), h_timestamp = now,
            h_context_snapshot = i_context inst \<rparr>"
      show ?thesis
      proof (cases "is_end d (t_target_state_id t)")
        case True
        with Inr Some show ?thesis
          by (intro exI [of _ "[?e]"])
             (simp add: run_instance.simps [of ev d now inst "Suc n"] commit_history)
      next
        case False
        have step: "run_instance ev d now inst (Suc n)
                      = run_instance ev d now (commit d now inst t) n"
          using Inr Some False by (simp add: run_instance.simps [of ev d now inst "Suc n"])
        from Suc.IH [of "commit d now inst t"]
        obtain es where es:
          "i_history (snd (run_instance ev d now (commit d now inst t) n))
             = i_history (commit d now inst t) @ es"
          "length es \<le> n"
          "fst (run_instance ev d now (commit d now inst t) n) = Some MaxHopsExceeded \<longrightarrow>
             length es = n
             \<and> i_status (snd (run_instance ev d now (commit d now inst t) n))
                 = i_status (commit d now inst t)
             \<and> i_current_state_id (snd (run_instance ev d now (commit d now inst t) n))
                 = (if es = [] then i_current_state_id (commit d now inst t)
                    else h_to_state_id (last es))"
          by blast
        show ?thesis
          using es False
          by (intro exI [of _ "?e # es"])
             (simp add: step commit_history commit_state commit_status)
      qed
    qed
  qed
qed





lemma cycle_created:
  "create_instance [cycle_definition] ''cycle'' [] ''i1'' 0 = Inr cycle_instance"
  by (simp add: create_instance_def cycle_definition_def cycle_instance_def)






section \<open>The history of an instance\<close>

lemma history_shape_append:
  "history_shape h \<Longrightarrow> h_from_state_id e \<noteq> None \<Longrightarrow> h_transition_id e \<noteq> None
     \<Longrightarrow> history_shape (h @ [e])"
  by (cases h) (simp_all add: history_shape_def)

lemma commit_shape:
  "history_shape (i_history inst) \<Longrightarrow> history_shape (i_history (commit d now inst t))"
  by (simp add: commit_history history_shape_append)

lemma run_instance_shape:
  "history_shape (i_history inst)
     \<Longrightarrow> history_shape (i_history (snd (run_instance ev d now inst n)))"
proof (induction n arbitrary: inst)
  case 0
  then show ?case
    by (simp add: run_instance.simps [of ev d now inst 0] split: sum.splits option.splits)
next
  case (Suc n)
  show ?case
  proof (cases "first_match ev (i_context inst) (outgoing d inst)")
    case (Inl e)
    with Suc.prems show ?thesis
      by (simp add: run_instance.simps [of ev d now inst "Suc n"])
  next
    case (Inr found)
    show ?thesis
    proof (cases found)
      case None
      with Inr Suc.prems show ?thesis
        by (simp add: run_instance.simps [of ev d now inst "Suc n"])
    next
      case (Some t)
      have "history_shape (i_history (commit d now inst t))"
        using Suc.prems by (rule commit_shape)
      with Inr Some Suc.IH [of "commit d now inst t"] show ?thesis
        by (simp add: run_instance.simps [of ev d now inst "Suc n"])
    qed
  qed
qed

lemma transition_instance_history:
  "transition_instance ev d now inst tid data_patch = Inr inst'
     \<Longrightarrow> \<exists>e. i_history inst' = i_history inst @ [e]
             \<and> h_from_state_id e \<noteq> None \<and> h_transition_id e \<noteq> None"
  by (auto simp: transition_instance_def commit_history Let_def
        split: option.splits sum.splits bool.splits)

lemma create_instance_shape:
  "create_instance registry definition_id initial_context new_id now = Inr inst
     \<Longrightarrow> history_shape (i_history inst)"
  by (auto simp: create_instance_def history_shape_def split: option.splits)

lemma produced_shape: "produced ev registry inst \<Longrightarrow> history_shape (i_history inst)"
proof (induction rule: produced.induct)
  case (created definition_id initial_context new_id now inst)
  then show ?case by (rule create_instance_shape)
next
  case (ran inst d now max_hops err inst')
  from run_instance_shape [OF ran.IH, of ev d now max_hops] ran.hyps(3)
  show ?case by simp
next
  case (transitioned inst d now transition_id data_patch inst')
  from transition_instance_history [OF transitioned.hyps(3)]
  obtain e where "i_history inst' = i_history inst @ [e]"
    "h_from_state_id e \<noteq> None" "h_transition_id e \<noteq> None"
    by blast
  with transitioned.IH show ?case
    by (simp add: history_shape_append)
qed

text \<open>
  Claim C6. The history of every instance that the engine's operations produce starts
  with the one initial entry, on which \<open>from_state_id\<close> and \<open>transition_id\<close> are null,
  and both are set on every later entry, one per committed transition. Both operations
  that change an instance leave the entries it has as they are and in place: the history
  before is a prefix of the history after. The history table of the frontend shows an
  entry without \<open>from_state_id\<close> as \<^verbatim>\<open>Initial\<close> and one without \<open>transition_id\<close>
  as \<^verbatim>\<open>Initialization\<close>.
\<close>

theorem history_append_only:
  assumes "produced ev registry inst"
  shows "history_shape (i_history inst)
    \<and> prefix (i_history inst) (i_history (snd (run_instance ev d now inst max_hops)))
    \<and> (transition_instance ev d now inst tid data_patch = Inr inst'
         \<longrightarrow> prefix (i_history inst) (i_history inst')
             \<and> length (i_history inst') = Suc (length (i_history inst)))
    \<and> (he_from_state_id entry = None \<longrightarrow> historyFromCell definition entry = ''Initial'')
    \<and> (he_transition_id entry = None
         \<longrightarrow> historyTransitionCell definition entry = ''Initialization'')"
proof -
  have shape: "history_shape (i_history inst)"
    using assms by (rule produced_shape)
  have run: "prefix (i_history inst) (i_history (snd (run_instance ev d now inst max_hops)))"
    using run_instance_commits [of ev d now inst max_hops] by (auto simp: prefix_def)
  have tr: "transition_instance ev d now inst tid data_patch = Inr inst'
         \<longrightarrow> prefix (i_history inst) (i_history inst')
             \<and> length (i_history inst') = Suc (length (i_history inst))"
    using transition_instance_history [of ev d now inst tid data_patch inst']
    by (auto simp: prefix_def)
  have cells: "(he_from_state_id entry = None \<longrightarrow> historyFromCell definition entry = ''Initial'')
    \<and> (he_transition_id entry = None
         \<longrightarrow> historyTransitionCell definition entry = ''Initialization'')"
    by (simp add: historyFromCell_def historyTransitionCell_def)
  from shape run tr cells show ?thesis by blast
qed

theorem history_append_only_witness:
  "produced no_rules [cycle_definition] cycle_instance
   \<and> history_shape (i_history cycle_instance)
   \<and> prefix (i_history cycle_instance)
        (i_history (snd (run_instance no_rules cycle_definition 1 cycle_instance 3)))
   \<and> transition_instance no_rules cycle_definition 1 cycle_instance ''loop'' []
       = Inr (commit cycle_definition 1 cycle_instance
                \<lparr> t_id = ''loop'', t_source_state_id = ''X'', t_target_state_id = ''X'',
                   t_rule_id = None \<rparr>)
   \<and> length (i_history (commit cycle_definition 1 cycle_instance
                \<lparr> t_id = ''loop'', t_source_state_id = ''X'', t_target_state_id = ''X'',
                   t_rule_id = None \<rparr>)) = Suc (length (i_history cycle_instance))"
proof -
  have p: "produced no_rules [cycle_definition] cycle_instance"
    using cycle_created by (rule produced.created)
  have t: "transition_instance no_rules cycle_definition 1 cycle_instance ''loop'' []
       = Inr (commit cycle_definition 1 cycle_instance
                \<lparr> t_id = ''loop'', t_source_state_id = ''X'', t_target_state_id = ''X'',
                   t_rule_id = None \<rparr>)"
    by (simp add: transition_instance_def outgoing_def matches_def merge_patch_def
          cycle_definition_def cycle_instance_def Let_def)
  from history_append_only
    [OF p, of cycle_definition 1 3 "''loop''" "[]"
       "commit cycle_definition 1 cycle_instance
          \<lparr> t_id = ''loop'', t_source_state_id = ''X'', t_target_state_id = ''X'',
             t_rule_id = None \<rparr>"] p t
  show ?thesis by blast
qed

section \<open>The transitions offered from the current state\<close>

lemma transition_instance_foreign:
  assumes "list_all (\<lambda>t. t_id t = tid \<longrightarrow> t_source_state_id t \<noteq> i_current_state_id inst)
             (d_transitions d)"
  shows "transition_instance ev d now inst tid data_patch = Inl InvalidTransition"
proof -
  have "find (\<lambda>t. t_id t = tid) (outgoing d inst) = None"
    using assms by (auto simp: find_None_iff outgoing_def list_all_iff)
  then show ?thesis by (simp add: transition_instance_def)
qed

text \<open>
  Claim C2. For an instance and its definition, the transitions that the detail page
  offers for an explicit transition request are exactly the transitions of the
  definition whose \<open>from_state_id\<close> is the \<open>current_state_id\<close> of the instance, in
  the order of the definition, and the select of the transition dialog offers their ids.
  In the engine, \<open>transition_instance\<close> with a \<open>transition_id\<close> that no Transition
  originating from the current State of the instance has fails with InvalidTransition.
\<close>

theorem transitions_from_current_state:
  "set (getAvailableTransitions (Some definition) (Some instance))
     = {t \<in> set (wd_transitions definition).
          tr_from_state_id t = wi_current_state_id instance}
   \<and> getAvailableTransitions (Some definition) (Some instance)
       = filter (\<lambda>t. tr_from_state_id t = wi_current_state_id instance)
           (wd_transitions definition)
   \<and> transitionOptions (Some definition) (Some instance)
       = map tr_id (filter (\<lambda>t. tr_from_state_id t = wi_current_state_id instance)
                      (wd_transitions definition))
   \<and> (list_all (\<lambda>t. t_id t = tid \<longrightarrow> t_source_state_id t \<noteq> i_current_state_id inst)
         (d_transitions d)
       \<longrightarrow> transition_instance ev d now inst tid data_patch = Inl InvalidTransition)"
  using transition_instance_foreign [of tid inst d ev now data_patch]
  by (auto simp: getAvailableTransitions_def transitionOptions_def)

theorem transitions_from_current_state_witness:
  "list_all (\<lambda>t. t_id t = ''back'' \<longrightarrow> t_source_state_id t \<noteq> i_current_state_id
        \<lparr> i_id = ''i1'', i_definition_id = ''review'', i_current_state_id = ''A'',
          i_context = [], i_status = Active, i_history = [] \<rparr>)
     [\<lparr> t_id = ''go'', t_source_state_id = ''A'', t_target_state_id = ''B'', t_rule_id = None \<rparr>,
      \<lparr> t_id = ''back'', t_source_state_id = ''B'', t_target_state_id = ''A'', t_rule_id = None \<rparr>]
   \<and> transition_instance no_rules
        \<lparr> d_id = ''review'', d_name = ''Review'', d_version = ''1'',
          d_states = [\<lparr> s_id = ''A'', s_name = ''A'', s_kind = Start \<rparr>,
                      \<lparr> s_id = ''B'', s_name = ''B'', s_kind = Normal \<rparr>],
          d_transitions =
            [\<lparr> t_id = ''go'', t_source_state_id = ''A'', t_target_state_id = ''B'',
               t_rule_id = None \<rparr>,
             \<lparr> t_id = ''back'', t_source_state_id = ''B'', t_target_state_id = ''A'',
               t_rule_id = None \<rparr>] \<rparr>
        1
        \<lparr> i_id = ''i1'', i_definition_id = ''review'', i_current_state_id = ''A'',
          i_context = [], i_status = Active, i_history = [] \<rparr>
        ''back'' []
      = Inl InvalidTransition
   \<and> map tr_id (getAvailableTransitions
        (Some \<lparr> wd_id = ''review'', wd_name = ''Review'', wd_description = [],
                wd_version = ''1'', wd_states = [],
                wd_transitions =
                  [\<lparr> tr_id = ''go'', tr_name = ''Go'', tr_description = [],
                     tr_from_state_id = ''A'', tr_to_state_id = ''B'', tr_conditions = None \<rparr>,
                   \<lparr> tr_id = ''back'', tr_name = ''Back'', tr_description = [],
                     tr_from_state_id = ''B'', tr_to_state_id = ''A'', tr_conditions = None \<rparr>],
                wd_created_at = [], wd_updated_at = [] \<rparr>)
        (Some \<lparr> wi_id = ''i1'', wi_workflow_definition_id = ''review'',
                wi_current_state_id = ''A'', wi_data = [], wi_status = ''active'',
                wi_created_at = [], wi_updated_at = [] \<rparr>))
      = [''go'']"
  using transitions_from_current_state
    [of "\<lparr> wd_id = ''review'', wd_name = ''Review'', wd_description = [],
                wd_version = ''1'', wd_states = [],
                wd_transitions =
                  [\<lparr> tr_id = ''go'', tr_name = ''Go'', tr_description = [],
                     tr_from_state_id = ''A'', tr_to_state_id = ''B'', tr_conditions = None \<rparr>,
                   \<lparr> tr_id = ''back'', tr_name = ''Back'', tr_description = [],
                     tr_from_state_id = ''B'', tr_to_state_id = ''A'', tr_conditions = None \<rparr>],
                wd_created_at = [], wd_updated_at = [] \<rparr>"
        "\<lparr> wi_id = ''i1'', wi_workflow_definition_id = ''review'',
                wi_current_state_id = ''A'', wi_data = [], wi_status = ''active'',
                wi_created_at = [], wi_updated_at = [] \<rparr>"
        "''back''"
        "\<lparr> i_id = ''i1'', i_definition_id = ''review'', i_current_state_id = ''A'',
          i_context = [], i_status = Active, i_history = [] \<rparr>"
        "\<lparr> d_id = ''review'', d_name = ''Review'', d_version = ''1'',
          d_states = [\<lparr> s_id = ''A'', s_name = ''A'', s_kind = Start \<rparr>,
                      \<lparr> s_id = ''B'', s_name = ''B'', s_kind = Normal \<rparr>],
          d_transitions =
            [\<lparr> t_id = ''go'', t_source_state_id = ''A'', t_target_state_id = ''B'',
               t_rule_id = None \<rparr>,
             \<lparr> t_id = ''back'', t_source_state_id = ''B'', t_target_state_id = ''A'',
               t_rule_id = None \<rparr>] \<rparr>"
        no_rules 1 "[]"]
  by simp

section \<open>The status of an instance\<close>







section \<open>Validation and the registry\<close>

lemma duplicates_Nil_iff: "duplicates xs = [] \<longleftrightarrow> distinct xs"
  by (induction xs) auto

lemma has_error_append: "has_error (xs @ ys) \<longleftrightarrow> has_error xs \<or> has_error ys"
  by (simp add: has_error_def list_ex_iff) blast

lemma has_error_duplicate_state:
  "\<not> distinct (state_ids d) \<Longrightarrow> has_error (uniqueness_findings d)"
proof -
  assume "\<not> distinct (state_ids d)"
  then have "duplicates (state_ids d) \<noteq> []"
    by (simp add: duplicates_Nil_iff)
  then obtain i where "i \<in> set (duplicates (state_ids d))"
    by (cases "duplicates (state_ids d)") auto
  then show ?thesis
    by (force simp: has_error_def list_ex_iff uniqueness_findings_def)
qed

lemma has_error_start:
  "length (start_states d) \<noteq> 1 \<Longrightarrow> has_error (start_findings d)"
  by (simp add: has_error_def start_findings_def)

lemma has_error_reference:
  assumes "t \<in> set (d_transitions d)"
    and "t_source_state_id t \<notin> set (state_ids d) \<or> t_target_state_id t \<notin> set (state_ids d)"
  shows "has_error (reference_findings d)"
proof -
  have "\<exists>f. f \<in> set (endpoint_findings d t) \<and> fst f = error"
  proof (cases "t_source_state_id t \<in> set (state_ids d)")
    case True
    with assms(2) have "t_target_state_id t \<notin> set (state_ids d)" by simp
    with True show ?thesis
      by (intro exI [of _ "(error, missing_state (t_id t) (t_target_state_id t))"])
         (simp add: endpoint_findings_def)
  next
    case False
    then show ?thesis
      by (intro exI [of _ "(error, missing_state (t_id t) (t_source_state_id t))"])
         (simp add: endpoint_findings_def)
  qed
  then obtain f where "f \<in> set (endpoint_findings d t)" "fst f = error"
    by blast
  with assms(1) show ?thesis
    by (auto simp: has_error_def list_ex_iff reference_findings_def)
qed

lemma has_error_validate_iff:
  "has_error (validate d) \<longleftrightarrow>
     has_error (uniqueness_findings d) \<or> has_error (start_findings d)
     \<or> has_error (reference_findings d)"
proof -
  have "\<not> has_error (reachability_findings d)"
    by (auto simp: has_error_def list_ex_iff reachability_findings_def split: list.splits)
  moreover have "\<not> has_error (anomaly_findings d)"
    by (auto simp: has_error_def list_ex_iff anomaly_findings_def)
  ultimately show ?thesis
    by (simp add: validate_def has_error_append)
qed

lemma register_definition_Inr:
  "register_definition r d = Inr (r', findings) \<Longrightarrow>
     r' = r @ [d] \<and> \<not> has_error (validate d)"
  by (auto simp: register_definition_def Let_def split: if_splits)

lemma validate_accepts:
  assumes "\<not> has_error (validate d)"
  shows "distinct (state_ids d) \<and> length (start_states d) = 1
     \<and> list_all (\<lambda>t. t_source_state_id t \<in> set (state_ids d)
                       \<and> t_target_state_id t \<in> set (state_ids d)) (d_transitions d)"
proof -
  from assms have a: "\<not> has_error (uniqueness_findings d)"
    and b: "\<not> has_error (start_findings d)" and c: "\<not> has_error (reference_findings d)"
    by (simp_all add: has_error_validate_iff)
  from a have "distinct (state_ids d)"
    using has_error_duplicate_state by blast
  moreover from b have "length (start_states d) = 1"
    using has_error_start by blast
  moreover from c have "list_all (\<lambda>t. t_source_state_id t \<in> set (state_ids d)
                       \<and> t_target_state_id t \<in> set (state_ids d)) (d_transitions d)"
    using has_error_reference [of _ d] by (auto simp: list_all_iff)
  ultimately show ?thesis by blast
qed

lemma is_registry_valid:
  "is_registry r \<Longrightarrow> d \<in> set r \<Longrightarrow> \<not> has_error (validate d)"
proof (induction arbitrary: d rule: is_registry.induct)
  case empty
  then show ?case by simp
next
  case (registered r d' r' findings)
  from register_definition_Inr [OF registered.hyps(2)]
  have "r' = r @ [d']" "\<not> has_error (validate d')" by simp_all
  with registered.IH registered.prems show ?case by auto
qed

text \<open>
  Claim C4. The validation of the engine reports an error for every definition in which
  two States share an id, or a Transition has an endpoint that is the id of no State of
  the definition, or the number of start States is zero or is two or more; and
  \<open>register_definition\<close> then fails with InvalidDefinition and the findings. No such
  definition is in a registry that the engine has built: every registered definition
  has States with distinct ids, exactly one start State, and Transitions whose endpoints
  are States of the definition.
\<close>

theorem validation_rejects:
  "(\<not> distinct (map s_id (d_states d))
      \<longrightarrow> has_error (validate d)
          \<and> register_definition r d = Inl (InvalidDefinition, validate d))
   \<and> (t \<in> set (d_transitions d)
       \<and> (t_source_state_id t \<notin> s_id ` set (d_states d)
           \<or> t_target_state_id t \<notin> s_id ` set (d_states d))
      \<longrightarrow> has_error (validate d)
          \<and> register_definition r d = Inl (InvalidDefinition, validate d))
   \<and> (length (filter (\<lambda>s. s_kind s = Start) (d_states d)) \<noteq> 1
      \<longrightarrow> has_error (validate d)
          \<and> register_definition r d = Inl (InvalidDefinition, validate d))
   \<and> (is_registry r' \<and> d' \<in> set r'
      \<longrightarrow> distinct (map s_id (d_states d'))
          \<and> length (filter (\<lambda>s. s_kind s = Start) (d_states d')) = 1
          \<and> list_all (\<lambda>t. t_source_state_id t \<in> s_id ` set (d_states d')
                           \<and> t_target_state_id t \<in> s_id ` set (d_states d'))
               (d_transitions d'))"
proof -
  have reg: "has_error (validate d)
      \<Longrightarrow> register_definition r d = Inl (InvalidDefinition, validate d)"
    by (simp add: register_definition_def Let_def)
  have a: "\<not> distinct (map s_id (d_states d)) \<longrightarrow> has_error (validate d)"
    using has_error_duplicate_state [of d]
    by (simp add: has_error_validate_iff state_ids_def)
  have b: "t \<in> set (d_transitions d)
       \<and> (t_source_state_id t \<notin> s_id ` set (d_states d)
           \<or> t_target_state_id t \<notin> s_id ` set (d_states d))
      \<longrightarrow> has_error (validate d)"
    using has_error_reference [of t d]
    by (simp add: has_error_validate_iff state_ids_def)
  have c: "length (filter (\<lambda>s. s_kind s = Start) (d_states d)) \<noteq> 1
      \<longrightarrow> has_error (validate d)"
    using has_error_start [of d]
    by (simp add: has_error_validate_iff start_states_def)
  have e: "is_registry r' \<and> d' \<in> set r'
      \<longrightarrow> distinct (map s_id (d_states d'))
          \<and> length (filter (\<lambda>s. s_kind s = Start) (d_states d')) = 1
          \<and> list_all (\<lambda>t. t_source_state_id t \<in> s_id ` set (d_states d')
                           \<and> t_target_state_id t \<in> s_id ` set (d_states d'))
               (d_transitions d')"
    using validate_accepts [of d'] is_registry_valid [of r' d']
    by (simp add: state_ids_def start_states_def)
  from reg a b c e show ?thesis by blast
qed

lemma cycle_registered:
  "register_definition [] cycle_definition
     = Inr ([cycle_definition], [(warning, self_transition ''loop'')])"
  by (simp add: register_definition_def validate_def uniqueness_findings_def
        start_findings_def reference_findings_def endpoint_findings_def
        reachability_findings_def anomaly_findings_def start_states_def state_ids_def
        has_error_def cycle_definition_def Let_def)

theorem validation_rejects_witness:
  "register_definition [cycle_definition] broken_definition
     = Inl (InvalidDefinition, validate broken_definition)
   \<and> has_error (validate broken_definition)
   \<and> is_registry [cycle_definition]
   \<and> distinct (map s_id (d_states cycle_definition))
   \<and> length (filter (\<lambda>s. s_kind s = Start) (d_states cycle_definition)) = 1"
proof -
  have r: "is_registry [cycle_definition]"
    using is_registry.empty cycle_registered by (rule is_registry.registered)
  have dup: "\<not> distinct (map s_id (d_states broken_definition))"
    by (simp add: broken_definition_def)
  from validation_rejects
    [of broken_definition "[cycle_definition]"
        "\<lparr> t_id = ''go'', t_source_state_id = ''A'', t_target_state_id = ''Z'',
           t_rule_id = None \<rparr>"
        "[cycle_definition]" cycle_definition] r dup
  show ?thesis by simp
qed

end
